theory Spec2Isabelle
  imports Main "HOL-Library.Word"
begin

section \<open>The S3 database writer of geoipupdate\<close>

text \<open>
  A shallow embedding of \<^verbatim>\<open>internal/geoipupdate/database/s3_file_writer.go\<close>.
  The two methods \<^verbatim>\<open>GetHash\<close> and \<^verbatim>\<open>Write\<close> talk to the local file system, to the
  caller's input stream and to the S3 client. Each of these calls is an explicit step on a
  \<open>world\<close> (input stream, files, open handles, log of calls); what a fallible call answers
  is read from an \<open>env\<close> record, so every combination of failures is an input of the model.
\<close>

subsection \<open>Go errors\<close>

text \<open>
  An error value is a tree: \<^verbatim>\<open>fmt.Errorf("...: %w", e)\<close> wraps one error behind a message
  prefix (the wrapper types of the S3 client are wrappers of the same shape),
  \<^verbatim>\<open>errors.Join\<close> holds several. \<open>NoSuchKey\<close> is \<^verbatim>\<open>*types.NoSuchKey\<close>.
\<close>

datatype error =
    OtherError string
  | NoSuchKey string
  | HashMismatch string string
  | Errorf string error
  | joinError "error list"

text \<open>\<^verbatim>\<open>errors.Join\<close>: nil arguments are dropped; nil when nothing is left.\<close>

definition errors_Join :: "error option list \<Rightarrow> error option" where
  "errors_Join errs =
     (case List.map_filter id errs of [] \<Rightarrow> None | e # es \<Rightarrow> Some (joinError (e # es)))"

text \<open>\<^verbatim>\<open>errors.As(err, &noSuchKeyErr)\<close> with a target of type \<^verbatim>\<open>*types.NoSuchKey\<close>:
  a search of the error tree, through \<^verbatim>\<open>Unwrap\<close>.\<close>

fun errors_As_NoSuchKey :: "error \<Rightarrow> bool" where
  "errors_As_NoSuchKey (NoSuchKey m) = True"
| "errors_As_NoSuchKey (Errorf p e) = errors_As_NoSuchKey e"
| "errors_As_NoSuchKey (joinError es) = (\<exists>e \<in> set es. errors_As_NoSuchKey e)"
| "errors_As_NoSuchKey (OtherError m) = False"
| "errors_As_NoSuchKey (HashMismatch a h) = False"

text \<open>\<open>occurs t e\<close>: the error \<open>t\<close> is reported by \<open>e\<close>, that is, it is \<open>e\<close> or sits in
  the tree below it (what \<^verbatim>\<open>errors.Is\<close> finds).\<close>

fun occurs :: "error \<Rightarrow> error \<Rightarrow> bool" where
  "occurs t (Errorf p e) = (t = Errorf p e \<or> occurs t e)"
| "occurs t (joinError es) = (t = joinError es \<or> (\<exists>e \<in> set es. occurs t e))"
| "occurs t e = (t = e)"

text \<open>The text of an error, \<^verbatim>\<open>err.Error()\<close>. A joined error prints its parts on
  separate lines.\<close>

fun join_lines :: "string list \<Rightarrow> string" where
  "join_lines [] = []"
| "join_lines [s] = s"
| "join_lines (s # t # ss) = s @ [CHR 0x0A] @ join_lines (t # ss)"

fun Error :: "error \<Rightarrow> string" where
  "Error (OtherError m) = m"
| "Error (NoSuchKey m) = m"
| "Error (HashMismatch a h) =
     ''md5 of new database ('' @ a @ '') does not match expected md5 ('' @ h @ '')''"
| "Error (Errorf p e) = p @ Error e"
| "Error (joinError es) = join_lines (map Error es)"

text \<open>\<^verbatim>\<open>strings.Contains\<close>.\<close>

fun has_prefix :: "string \<Rightarrow> string \<Rightarrow> bool" where
  "has_prefix s [] = True"
| "has_prefix [] (c # cs) = False"
| "has_prefix (d # ds) (c # cs) = (d = c \<and> has_prefix ds cs)"

fun strings_Contains :: "string \<Rightarrow> string \<Rightarrow> bool" where
  "strings_Contains [] sub = (sub = [])"
| "strings_Contains (c # cs) sub = (has_prefix (c # cs) sub \<or> strings_Contains cs sub)"

subsection \<open>Paths\<close>

text \<open>\<^verbatim>\<open>path.Join\<close> of the Go library joins the non-empty elements with a slash and
  cleans the result: empty and \<^verbatim>\<open>.\<close> elements go, \<^verbatim>\<open>..\<close> removes the element before it
  (at the start of a rooted path it goes, at the start of a relative one it stays).\<close>

fun splitSlash :: "string \<Rightarrow> string list" where
  "splitSlash [] = [[]]"
| "splitSlash (c # cs) =
     (if c = CHR ''/'' then [] # splitSlash cs
      else (case splitSlash cs of [] \<Rightarrow> [[c]] | x # xs \<Rightarrow> (c # x) # xs))"

fun cleanElems :: "bool \<Rightarrow> string list \<Rightarrow> string list \<Rightarrow> string list" where
  "cleanElems rooted stack [] = rev stack"
| "cleanElems rooted stack (x # xs) =
     (if x = [] \<or> x = ''.'' then cleanElems rooted stack xs
      else if x = ''..'' then
        (case stack of
           [] \<Rightarrow> if rooted then cleanElems rooted [] xs else cleanElems rooted [''..''] xs
         | y # ys \<Rightarrow> if y = ''..'' then cleanElems rooted (''..'' # y # ys) xs
                     else cleanElems rooted ys xs)
      else cleanElems rooted (x # stack) xs)"

fun joinSlash :: "string list \<Rightarrow> string" where
  "joinSlash [] = []"
| "joinSlash [s] = s"
| "joinSlash (s # t # ss) = s @ ''/'' @ joinSlash (t # ss)"

definition path_Clean :: "string \<Rightarrow> string" where
  "path_Clean p =
     (let rooted = (case p of [] \<Rightarrow> False | c # cs \<Rightarrow> c = CHR ''/'');
          out = (if rooted then ''/'' else []) @ joinSlash (cleanElems rooted [] (splitSlash p))
      in if out = [] then ''.'' else out)"

definition path_Join :: "string list \<Rightarrow> string" where
  "path_Join elems =
     (case filter (\<lambda>e. e \<noteq> []) elems of
        [] \<Rightarrow> []
      | e # es \<Rightarrow> path_Clean (joinSlash (e # es)))"

subsection \<open>The world the writer acts on\<close>

type_synonym byte = "8 word"

text \<open>The caller's \<^verbatim>\<open>io.ReadCloser\<close>: what its next calls of \<^verbatim>\<open>Read\<close> will answer, in
  order (a chunk of bytes, or an error), with end of file once the list is used up; and
  whether \<^verbatim>\<open>Close\<close> was called.\<close>

datatype read_result = Data "byte list" | Fail error

record reader =
  pending :: "read_result list"
  closed :: bool

text \<open>Open resources: the caller's stream, a file opened for writing or for reading, the
  body of a \<^verbatim>\<open>GetObject\<close> response (an open connection until it is closed).\<close>

datatype handle =
    HReader
  | HFileWriter string
  | HFileReader string
  | HResponseBody string

text \<open>\<^verbatim>\<open>s3.PutObjectInput\<close>, with the fields the claims are about. \<open>Body\<close> is what the
  store reads from the body handle.\<close>

record PutObjectInput =
  Bucket :: "string option"
  Key :: "string option"
  ServerSideEncryption :: string
  Body :: "byte list"
  Tagging :: "string option"
  Metadata :: "(string \<times> string) list"

record GetObjectOutput =
  ETag :: "string option"

text \<open>The log of the calls made, each with what it returned.\<close>

datatype event =
    EvNewFileWriter string "error option"
  | EvFwWrite "error option"
  | EvValidateHash string "error option"
  | EvOpenFile string "error option"
  | EvPutObject PutObjectInput "error option"
  | EvBodyClose "error option"
  | EvFwClose "error option"
  | EvDrain "error option"
  | EvReaderClose "error option"
  | EvLog string
  | EvGetObject string string

record world =
  rd :: reader
  files :: "string \<Rightarrow> byte list option"
  handles :: "handle list"
  trace :: "event list"

definition emit :: "event \<Rightarrow> world \<Rightarrow> world" where
  "emit ev w = w\<lparr>trace := trace w @ [ev]\<rparr>"

definition acquire :: "handle \<Rightarrow> world \<Rightarrow> world" where
  "acquire h w = w\<lparr>handles := h # handles w\<rparr>"

definition release :: "handle \<Rightarrow> world \<Rightarrow> world" where
  "release h w = w\<lparr>handles := remove1 h (handles w)\<rparr>"

text \<open>The calls of one execution: what it added to the log.\<close>

definition new_events :: "world \<Rightarrow> world \<Rightarrow> event list" where
  "new_events w w' = drop (length (trace w)) (trace w')"

text \<open>A destination of a copy: it takes every chunk, or it takes \<open>n\<close> chunks and fails
  at the next one (disk full, permission).\<close>

datatype sink = Unlimited | FailsAfter nat error

text \<open>
  What is outside the source file. The package constants \<^verbatim>\<open>extension\<close>,
  \<^verbatim>\<open>tempExtension\<close> and \<^verbatim>\<open>ZeroMD5\<close> are declared in other files of the package: they are
  parameters, and so is the hash function. The other fields say what each fallible call
  returns: an error or none; for the disk, after how many chunks it fails; for
  \<^verbatim>\<open>GetObject\<close>, an error or a response.
\<close>

record env =
  extension :: string
  tempExtension :: string
  ZeroMD5 :: string
  md5sum :: "byte list \<Rightarrow> string"
  newFileWriter_err :: "error option"
  disk :: sink
  fw_close_err :: "error option"
  openFile_err :: "error option"
  body_close_err :: "error option"
  putObject_err :: "error option"
  reader_close_err :: "error option"
  getObject_result :: "error + GetObjectOutput"

subsection \<open>The library calls\<close>

text \<open>\<^verbatim>\<open>io.Copy(dst, src)\<close>: reads until end of file (no error) or until a read or a write
  fails. Returns what is left of the source, the bytes written and the error.\<close>

fun io_Copy :: "sink \<Rightarrow> read_result list \<Rightarrow> read_result list \<times> byte list \<times> error option" where
  "io_Copy s [] = ([], [], None)"
| "io_Copy s (Fail e # rs) = (rs, [], Some e)"
| "io_Copy Unlimited (Data bs # rs) =
     (case io_Copy Unlimited rs of (rest, out, r) \<Rightarrow> (rest, bs @ out, r))"
| "io_Copy (FailsAfter 0 e) (Data bs # rs) = (rs, [], Some e)"
| "io_Copy (FailsAfter (Suc n) e) (Data bs # rs) =
     (case io_Copy (FailsAfter n e) rs of (rest, out, r) \<Rightarrow> (rest, bs @ out, r))"

text \<open>\<^verbatim>\<open>io.Copy(io.Discard, reader)\<close>.\<close>

definition drain :: "world \<Rightarrow> error option \<times> world" where
  "drain w =
     (case io_Copy Unlimited (pending (rd w)) of
        (rest, out, r) \<Rightarrow> (r, emit (EvDrain r) (w\<lparr>rd := (rd w)\<lparr>pending := rest\<rparr>\<rparr>)))"

text \<open>\<^verbatim>\<open>reader.Close()\<close>: the stream is closed whatever \<^verbatim>\<open>Close\<close> returns.\<close>

definition reader_Close :: "env \<Rightarrow> world \<Rightarrow> error option \<times> world" where
  "reader_Close env w =
     (reader_close_err env,
      emit (EvReaderClose (reader_close_err env))
        (release HReader (w\<lparr>rd := (rd w)\<lparr>closed := True\<rparr>\<rparr>)))"

text \<open>\<^verbatim>\<open>os.OpenFile(name, os.O_RDONLY, 0o644)\<close>: fails when the system says so or when
  there is no such file.\<close>

definition os_OpenFile :: "env \<Rightarrow> string \<Rightarrow> world \<Rightarrow> (error + string) \<times> world" where
  "os_OpenFile env name w =
     (case openFile_err env of
        Some e \<Rightarrow> (Inl e, emit (EvOpenFile name (Some e)) w)
      | None \<Rightarrow>
          (case files w name of
             None \<Rightarrow> (let e = OtherError (''open '' @ name @ '': no such file or directory'')
                      in (Inl e, emit (EvOpenFile name (Some e)) w))
           | Some bs \<Rightarrow> (Inr name, emit (EvOpenFile name None) (acquire (HFileReader name) w))))"

text \<open>\<^verbatim>\<open>s3Body.Close()\<close>.\<close>

definition file_Close :: "env \<Rightarrow> string \<Rightarrow> world \<Rightarrow> error option \<times> world" where
  "file_Close env name w =
     (body_close_err env, emit (EvBodyClose (body_close_err env)) (release (HFileReader name) w))"

text \<open>\<^verbatim>\<open>s3Client.PutObject\<close> and \<^verbatim>\<open>s3Client.GetObject\<close>. A successful \<^verbatim>\<open>GetObject\<close>
  hands the caller the open body of the response.\<close>

definition s3_PutObject :: "env \<Rightarrow> PutObjectInput \<Rightarrow> world \<Rightarrow> error option \<times> world" where
  "s3_PutObject env input w = (putObject_err env, emit (EvPutObject input (putObject_err env)) w)"

definition s3_GetObject ::
  "env \<Rightarrow> string \<Rightarrow> string \<Rightarrow> world \<Rightarrow> (error + GetObjectOutput) \<times> world" where
  "s3_GetObject env bucket key w =
     (case getObject_result env of
        Inl e \<Rightarrow> (Inl e, emit (EvGetObject bucket key) w)
      | Inr response \<Rightarrow>
          (Inr response, emit (EvGetObject bucket key) (acquire (HResponseBody key) w)))"

subsection \<open>The file writer\<close>

text \<open>
  The type \<^verbatim>\<open>fileWriter\<close> and its functions \<^verbatim>\<open>newFileWriter\<close>, \<^verbatim>\<open>write\<close>,
  \<^verbatim>\<open>validateHash\<close> and \<^verbatim>\<open>close\<close> are declared in another file of the package;
  \<^verbatim>\<open>Write\<close> only calls them. They are modelled from the spec's staging writer, and whether
  each one fails is read from the environment.
\<close>

text \<open>The bytes of the file at a path (none when there is no such file).\<close>

definition staged :: "world \<Rightarrow> string \<Rightarrow> byte list" where
  "staged w p = (case files w p of None \<Rightarrow> [] | Some bs \<Rightarrow> bs)"

text \<open>Modelled from the spec: the handle of the staged file, which \<^verbatim>\<open>newFileWriter\<close>
  returns; the declaration of \<^verbatim>\<open>fileWriter\<close> is missing.\<close>

record fileWriter =
  fw_path :: string

text \<open>Modelled from the spec: \<^verbatim>\<open>newFileWriter\<close> is missing. The spec: "opens/creates the
  file at path", "creates/overwrites a file at the temp path"; failures are reported as
  I/O errors.\<close>

definition newFileWriter :: "env \<Rightarrow> string \<Rightarrow> world \<Rightarrow> (error + fileWriter) \<times> world" where
  "newFileWriter env p w =
     (case newFileWriter_err env of
        Some e \<Rightarrow> (Inl e, emit (EvNewFileWriter p (Some e)) w)
      | None \<Rightarrow>
          (Inr \<lparr>fw_path = p\<rparr>,
           emit (EvNewFileWriter p None) (acquire (HFileWriter p) (w\<lparr>files := (files w)(p \<mapsto> [])\<rparr>))))"

text \<open>Modelled from the spec: \<^verbatim>\<open>fileWriter.write\<close> is missing. The spec: "copies the
  entire input stream into it"; a failing read or a failing disk ends the copy with an I/O
  error.\<close>

definition fw_write :: "env \<Rightarrow> fileWriter \<Rightarrow> world \<Rightarrow> error option \<times> world" where
  "fw_write env fw w =
     (case io_Copy (disk env) (pending (rd w)) of
        (rest, out, r) \<Rightarrow>
          (r, emit (EvFwWrite r)
                (w\<lparr>rd := (rd w)\<lparr>pending := rest\<rparr>,
                   files := (files w)(fw_path fw \<mapsto> staged w (fw_path fw) @ out)\<rparr>)))"

text \<open>Lower case of an ASCII letter, for the comparison of hex digests.\<close>

definition toLower :: "char \<Rightarrow> char" where
  "toLower c =
     (let n = (of_char c :: nat) in if 65 \<le> n \<and> n \<le> 90 then char_of (n + 32) else c)"

text \<open>Modelled from the spec: \<^verbatim>\<open>fileWriter.validateHash\<close> is missing. The spec: "computes
  the content hash of the staged file" and "compares against expected (case-insensitive hex
  comparison)"; a mismatch is "a distinct error kind".\<close>

definition validateHash :: "env \<Rightarrow> fileWriter \<Rightarrow> string \<Rightarrow> world \<Rightarrow> error option \<times> world" where
  "validateHash env fw h w =
     (let tempFileHash = md5sum env (staged w (fw_path fw));
          r = (if map toLower h = map toLower tempFileHash then None
               else Some (HashMismatch tempFileHash h))
      in (r, emit (EvValidateHash h r) w))"

text \<open>Modelled from the spec: \<^verbatim>\<open>fileWriter.close\<close> is missing. It releases the handle of
  the staged file; the spec: "creates/overwrites a file at the temp path; does not delete
  it".\<close>

definition fw_close :: "env \<Rightarrow> fileWriter \<Rightarrow> world \<Rightarrow> error option \<times> world" where
  "fw_close env fw w =
     (fw_close_err env, emit (EvFwClose (fw_close_err env)) (release (HFileWriter (fw_path fw)) w))"

subsection \<open>The writer\<close>

definition DateModifiedTag :: string where
  "DateModifiedTag = ''DateOfSourceDatabaseModification''"

definition ServerSideEncryptionAes256 :: string where
  "ServerSideEncryptionAes256 = ''AES256''"

type_synonym s3_Client = nat
type_synonym time = int

record S3DatabaseWriter =
  s3Client :: s3_Client
  s3Bucket :: string
  disableEncryption :: bool
  verbose :: bool

definition NewS3DatabaseWriter ::
  "s3_Client \<Rightarrow> string \<Rightarrow> bool \<Rightarrow> S3DatabaseWriter \<times> error option" where
  "NewS3DatabaseWriter client bucket verb =
     (\<lparr>s3Client = client, s3Bucket = bucket, disableEncryption = False, verbose = verb\<rparr>, None)"

definition getObjectKey :: "env \<Rightarrow> S3DatabaseWriter \<Rightarrow> string \<Rightarrow> string" where
  "getObjectKey env writer editionID = editionID @ extension env"

text \<open>A Go function returns, or panics (here: a nil pointer is dereferenced).\<close>

datatype 'a outcome = Return 'a | Panic string

definition GetHash ::
  "S3DatabaseWriter \<Rightarrow> env \<Rightarrow> string \<Rightarrow> world \<Rightarrow> (string \<times> error option) outcome \<times> world" where
  "GetHash writer env editionID w =
     (let objectKey = getObjectKey env writer editionID
      in case s3_GetObject env (s3Bucket writer) objectKey w of
           (Inl err, w1) \<Rightarrow>
             if errors_As_NoSuchKey err then (Return (ZeroMD5 env, None), w1)
             else (Return ([], Some (Errorf (''failed to Get Object '' @ objectKey @ '' in bucket ''
                                              @ s3Bucket writer @ '': '') err)), w1)
         | (Inr response, w1) \<Rightarrow>
             (case ETag response of
                None \<Rightarrow> (Panic ''invalid memory address or nil pointer dereference'', w1)
              | Some etag \<Rightarrow> (Return (etag, None), w1)))"

text \<open>
  \<^verbatim>\<open>Write\<close> registers three deferred functions. A deferred function runs when the code
  after its \<^verbatim>\<open>defer\<close> statement has returned, sees the named result \<^verbatim>\<open>err\<close> and may
  replace it; so each one is a function on the pair of the result and the world, and
  \<^verbatim>\<open>Write\<close> is three nested blocks, the last registered deferred function running first.
\<close>

definition deferred_reader :: "env \<Rightarrow> string \<Rightarrow> error option \<times> world \<Rightarrow> error option \<times> world" where
  "deferred_reader env editionID = (\<lambda>(err, w).
     case drain w of
       (_, w1) \<Rightarrow>
         (case reader_Close env w1 of
            (Some closeErr, w2) \<Rightarrow>
              (errors_Join [err, Some (Errorf (''closing reader for '' @ editionID @ '': '') closeErr)], w2)
          | (None, w2) \<Rightarrow> (err, w2)))"

definition deferred_fw :: "env \<Rightarrow> fileWriter \<Rightarrow> error option \<times> world \<Rightarrow> error option \<times> world" where
  "deferred_fw env fw = (\<lambda>(err, w).
     case fw_close env fw w of
       (Some closeErr, w1) \<Rightarrow> (errors_Join [err, Some (Errorf ''closing file writer: '' closeErr)], w1)
     | (None, w1) \<Rightarrow> (err, w1))"

definition deferred_s3Body :: "env \<Rightarrow> string \<Rightarrow> error option \<times> world \<Rightarrow> error option \<times> world" where
  "deferred_s3Body env s3Body = (\<lambda>(err, w).
     case file_Close env s3Body w of
       (Some closeErr, w1) \<Rightarrow> (errors_Join [err, Some (Errorf ''closing file reader: '' closeErr)], w1)
     | (None, w1) \<Rightarrow> (err, w1))"

text \<open>Lines 117 to 134: the request, the upload, the log line.\<close>

definition Write_upload ::
  "S3DatabaseWriter \<Rightarrow> env \<Rightarrow> string \<Rightarrow> string \<Rightarrow> string \<Rightarrow> string \<Rightarrow> world \<Rightarrow> error option \<times> world" where
  "Write_upload writer env editionID key newMD5 s3Body w =
     (let s3PutObject = \<lparr>Bucket = Some (s3Bucket writer), Key = Some key,
                          ServerSideEncryption = ServerSideEncryptionAes256,
                          Body = staged w s3Body, Tagging = None, Metadata = []\<rparr>;
          s3PutObject = (if disableEncryption writer
                         then s3PutObject\<lparr>ServerSideEncryption := []\<rparr> else s3PutObject)
      in case s3_PutObject env s3PutObject w of
           (Some err, w1) \<Rightarrow> (Some (Errorf ''encountered an error writing file to S3: '' err), w1)
         | (None, w1) \<Rightarrow>
             (None,
              if verbose writer
              then emit (EvLog (''Database '' @ editionID @ '' successfully updated: '' @ newMD5)) w1
              else w1))"

text \<open>Lines 98 to 115: staging, validation, opening the staged file.\<close>

definition Write_staged ::
  "S3DatabaseWriter \<Rightarrow> env \<Rightarrow> string \<Rightarrow> string \<Rightarrow> string \<Rightarrow> string \<Rightarrow> fileWriter \<Rightarrow> world
     \<Rightarrow> error option \<times> world" where
  "Write_staged writer env editionID key newMD5 tempFile fw w =
     (case fw_write env fw w of
        (Some err, w1) \<Rightarrow>
          (Some (Errorf (''writing to the temp file for '' @ editionID @ '': '') err), w1)
      | (None, w1) \<Rightarrow>
          (case validateHash env fw newMD5 w1 of
             (Some err, w2) \<Rightarrow>
               (Some (Errorf (''validating hash for '' @ editionID @ '': '') err), w2)
           | (None, w2) \<Rightarrow>
               (case os_OpenFile env tempFile w2 of
                  (Inl err, w3) \<Rightarrow>
                    (Some (Errorf (''opening temp file to read for '' @ editionID @ '': '') err), w3)
                | (Inr s3Body, w3) \<Rightarrow>
                    deferred_s3Body env s3Body
                      (Write_upload writer env editionID key newMD5 s3Body w3))))"

definition Write ::
  "S3DatabaseWriter \<Rightarrow> env \<Rightarrow> string \<Rightarrow> string \<Rightarrow> time \<Rightarrow> world \<Rightarrow> error option \<times> world" where
  "Write writer env editionID newMD5 mtime w =
     deferred_reader env editionID
       (let key = getObjectKey env writer editionID;
            tempFile = path_Join [''tmp'', key] @ tempExtension env
        in case newFileWriter env tempFile w of
             (Inl err, w1) \<Rightarrow>
               (Some (Errorf (''setting up database writer for '' @ editionID @ '': '') err), w1)
           | (Inr fw, w1) \<Rightarrow>
               deferred_fw env fw (Write_staged writer env editionID key newMD5 tempFile fw w1))"

subsection \<open>Notions used to state the properties\<close>

text \<open>The temp path of an edition (lines 85 and 87) and the request that lines 117 to
  126 build for a staged content.\<close>

definition tempFile_of :: "env \<Rightarrow> S3DatabaseWriter \<Rightarrow> string \<Rightarrow> string" where
  "tempFile_of env writer editionID =
     path_Join [''tmp'', getObjectKey env writer editionID] @ tempExtension env"

definition request_of :: "S3DatabaseWriter \<Rightarrow> env \<Rightarrow> string \<Rightarrow> byte list \<Rightarrow> PutObjectInput" where
  "request_of writer env editionID content =
     \<lparr>Bucket = Some (s3Bucket writer), Key = Some (getObjectKey env writer editionID),
      ServerSideEncryption = (if disableEncryption writer then [] else ServerSideEncryptionAes256),
      Body = content, Tagging = None, Metadata = []\<rparr>"

text \<open>What a deferred close does to the named result: nothing when the close succeeds,
  otherwise the result joined with the wrapped close error.\<close>

definition closing :: "error option \<Rightarrow> string \<Rightarrow> error option \<Rightarrow> error option" where
  "closing err msg closeErr =
     (case closeErr of None \<Rightarrow> err | Some c \<Rightarrow> errors_Join [err, Some (Errorf msg c)])"

text \<open>A result reports an error when it is an error in whose tree that error occurs.\<close>

definition reports :: "error option \<Rightarrow> error \<Rightarrow> bool" where
  "reports r t = (case r of None \<Rightarrow> False | Some x \<Rightarrow> occurs t x)"

text \<open>The error a logged call returned. The result of the drain is left out: the source
  discards it (\<^verbatim>\<open>_, _ = io.Copy(io.Discard, reader)\<close>, "best effort").\<close>

fun event_error :: "event \<Rightarrow> error option" where
  "event_error (EvNewFileWriter p r) = r"
| "event_error (EvFwWrite r) = r"
| "event_error (EvValidateHash h r) = r"
| "event_error (EvOpenFile p r) = r"
| "event_error (EvPutObject i r) = r"
| "event_error (EvBodyClose r) = r"
| "event_error (EvFwClose r) = r"
| "event_error (EvReaderClose r) = r"
| "event_error (EvDrain r) = None"
| "event_error (EvLog m) = None"
| "event_error (EvGetObject b k) = None"

text \<open>The requests of the uploads in a log.\<close>

fun uploads :: "event list \<Rightarrow> PutObjectInput list" where
  "uploads [] = []"
| "uploads (EvPutObject i r # evs) = i # uploads evs"
| "uploads (ev # evs) = uploads evs"

fun is_Data :: "read_result \<Rightarrow> bool" where
  "is_Data (Data bs) = True"
| "is_Data (Fail e) = False"

subsection \<open>Concrete inputs\<close>

text \<open>An environment in which every call succeeds, with a toy hash function; a world
  whose input stream holds two chunks; a world with nothing open; a writer.\<close>

definition example_env :: env where
  "example_env =
     \<lparr>extension = ''.mmdb'', tempExtension = ''.temporary'',
      ZeroMD5 = ''00000000000000000000000000000000'',
      md5sum = (\<lambda>bs. if bs = [104, 105] then ''49f68a5c'' else ''d41d8cd9''),
      newFileWriter_err = None, disk = Unlimited, fw_close_err = None, openFile_err = None,
      body_close_err = None, putObject_err = None, reader_close_err = None,
      getObject_result = Inr \<lparr>ETag = Some ''49f68a5c''\<rparr>\<rparr>"

definition example_world :: world where
  "example_world =
     \<lparr>rd = \<lparr>pending = [Data [104], Data [105]], closed = False\<rparr>,
      files = (\<lambda>p. None), handles = [HReader], trace = []\<rparr>"

definition idle_world :: world where
  "idle_world = \<lparr>rd = \<lparr>pending = [], closed = True\<rparr>, files = (\<lambda>p. None), handles = [], trace = []\<rparr>"

definition example_writer :: S3DatabaseWriter where
  "example_writer = fst (NewS3DatabaseWriter 0 ''geoip-bucket'' False)"

section \<open>Properties\<close>

subsection \<open>Errors\<close>

lemma occurs_refl [simp]: "occurs e e"
  by (cases e) simp_all

subsection \<open>GetHash\<close>

lemma GetHash_handles:
  "handles (snd (GetHash writer env editionID w)) =
     (case getObject_result env of
        Inl e \<Rightarrow> handles w
      | Inr response \<Rightarrow> HResponseBody (getObjectKey env writer editionID) # handles w)"
  by (simp add: GetHash_def s3_GetObject_def emit_def acquire_def Let_def
        split: sum.splits option.splits)

text \<open>
  C2. \<^verbatim>\<open>GetHash\<close> tells three cases apart. When the retrieval fails with an error in which
  a \<^verbatim>\<open>NoSuchKey\<close> is found, it returns the zero hash and no error. When it fails with any
  other error, it returns the empty string and an error that wraps the failure, so the
  result is never the pair of the sentinel and no error. When it succeeds and the response
  has an ETag, it returns that ETag and no error.
\<close>

theorem GetHash_absent_failed_found:
  "(getObject_result env = Inl e \<and> errors_As_NoSuchKey e \<longrightarrow>
      fst (GetHash writer env editionID w) = Return (ZeroMD5 env, None))
   \<and> (getObject_result env = Inl e \<and> \<not> errors_As_NoSuchKey e \<longrightarrow>
        (\<exists>e'. fst (GetHash writer env editionID w) = Return ([], Some e') \<and> occurs e e')
        \<and> fst (GetHash writer env editionID w) \<noteq> Return (ZeroMD5 env, None))
   \<and> (getObject_result env = Inr response \<and> ETag response = Some etag \<longrightarrow>
        fst (GetHash writer env editionID w) = Return (etag, None))"
  by (simp add: GetHash_def s3_GetObject_def Let_def)

theorem GetHash_absent_failed_found_witness:
  "fst (GetHash example_writer
         (example_env\<lparr>getObject_result :=
            Inl (Errorf ''operation error S3: GetObject, '' (NoSuchKey ''NoSuchKey''))\<rparr>)
         ''NOPE'' idle_world)
     = Return (''00000000000000000000000000000000'', None)
   \<and> fst (GetHash example_writer
         (example_env\<lparr>getObject_result := Inl (OtherError ''AccessDenied'')\<rparr>) ''NOPE'' idle_world)
     \<noteq> Return (''00000000000000000000000000000000'', None)
   \<and> fst (GetHash example_writer example_env ''GeoLite2-City'' idle_world)
     = Return (''49f68a5c'', None)"
  using
    GetHash_absent_failed_found
      [of "example_env\<lparr>getObject_result :=
             Inl (Errorf ''operation error S3: GetObject, '' (NoSuchKey ''NoSuchKey''))\<rparr>"
          "Errorf ''operation error S3: GetObject, '' (NoSuchKey ''NoSuchKey'')"
          example_writer "''NOPE''" idle_world]
    GetHash_absent_failed_found
      [of "example_env\<lparr>getObject_result := Inl (OtherError ''AccessDenied'')\<rparr>"
          "OtherError ''AccessDenied''" example_writer "''NOPE''" idle_world]
    GetHash_absent_failed_found
      [of example_env _ example_writer "''GeoLite2-City''" idle_world
          "\<lparr>ETag = Some ''49f68a5c''\<rparr>" "''49f68a5c''"]
  by (simp add: example_env_def)

text \<open>
  C10. When the retrieval succeeds, \<^verbatim>\<open>GetHash\<close> dereferences the ETag pointer of the
  response without a check: with an ETag it returns it, and with none it panics, returning
  neither an error nor the sentinel.
\<close>

theorem GetHash_dereferences_ETag:
  "getObject_result env = Inr response \<Longrightarrow>
     fst (GetHash writer env editionID w) =
       (case ETag response of
          Some etag \<Rightarrow> Return (etag, None)
        | None \<Rightarrow> Panic ''invalid memory address or nil pointer dereference'')
     \<and> (ETag response = None \<longrightarrow> (\<forall>x. fst (GetHash writer env editionID w) \<noteq> Return x))"
  by (simp add: GetHash_def s3_GetObject_def Let_def split: option.splits)

theorem GetHash_dereferences_ETag_witness:
  "fst (GetHash example_writer (example_env\<lparr>getObject_result := Inr \<lparr>ETag = None\<rparr>\<rparr>)
         ''GeoLite2-City'' idle_world)
     = Panic ''invalid memory address or nil pointer dereference''"
  using GetHash_dereferences_ETag
      [of "example_env\<lparr>getObject_result := Inr \<lparr>ETag = None\<rparr>\<rparr>" "\<lparr>ETag = None\<rparr>"
          example_writer "''GeoLite2-City''" idle_world]
  by (simp add: example_env_def)

subsection \<open>Write, path by path\<close>

text \<open>
  Each deferred function and the upload block in closed form, then \<^verbatim>\<open>Write\<close> itself on
  each of its five paths: what it returns and what it leaves of the world, in terms of the
  inputs alone. The paths are told apart by what the calls answer, in the order of the
  source: setting up the file writer, copying the stream, comparing the hashes, opening
  the staged file.
\<close>

lemma deferred_reader_eq:
  "deferred_reader env editionID (err, w) =
     (closing err (''closing reader for '' @ editionID @ '': '') (reader_close_err env),
      w\<lparr>rd := \<lparr>pending = fst (io_Copy Unlimited (pending (rd w))), closed = True\<rparr>,
        handles := remove1 HReader (handles w),
        trace := trace w @ [EvDrain (snd (snd (io_Copy Unlimited (pending (rd w))))),
                            EvReaderClose (reader_close_err env)]\<rparr>)"
  by (simp add: deferred_reader_def drain_def reader_Close_def emit_def release_def closing_def
        split_beta split: option.splits)

lemma deferred_fw_eq:
  "deferred_fw env fw (err, w) =
     (closing err ''closing file writer: '' (fw_close_err env),
      w\<lparr>handles := remove1 (HFileWriter (fw_path fw)) (handles w),
        trace := trace w @ [EvFwClose (fw_close_err env)]\<rparr>)"
  by (simp add: deferred_fw_def fw_close_def emit_def release_def closing_def split: option.splits)

lemma deferred_s3Body_eq:
  "deferred_s3Body env s3Body (err, w) =
     (closing err ''closing file reader: '' (body_close_err env),
      w\<lparr>handles := remove1 (HFileReader s3Body) (handles w),
        trace := trace w @ [EvBodyClose (body_close_err env)]\<rparr>)"
  by (simp add: deferred_s3Body_def file_Close_def emit_def release_def closing_def
        split: option.splits)

lemma Write_upload_eq:
  "Write_upload writer env editionID (getObjectKey env writer editionID) expected s3Body w =
     (map_option (Errorf ''encountered an error writing file to S3: '') (putObject_err env),
      w\<lparr>trace := trace w
           @ EvPutObject (request_of writer env editionID (staged w s3Body)) (putObject_err env)
             # (if putObject_err env = None \<and> verbose writer
                then [EvLog (''Database '' @ editionID @ '' successfully updated: '' @ expected)]
                else [])\<rparr>)"
  by (simp add: Write_upload_def s3_PutObject_def emit_def request_of_def Let_def
        split: option.splits)

lemma Write_setup_failed:
  assumes "newFileWriter_err env = Some e"
  shows "Write writer env editionID expected mtime w =
     (closing (Some (Errorf (''setting up database writer for '' @ editionID @ '': '') e))
        (''closing reader for '' @ editionID @ '': '') (reader_close_err env),
      w\<lparr>rd := \<lparr>pending = fst (io_Copy Unlimited (pending (rd w))), closed = True\<rparr>,
        handles := remove1 HReader (handles w),
        trace := trace w @ [EvNewFileWriter (tempFile_of env writer editionID) (Some e),
                            EvDrain (snd (snd (io_Copy Unlimited (pending (rd w))))),
                            EvReaderClose (reader_close_err env)]\<rparr>)"
  using assms
  by (simp add: Write_def newFileWriter_def emit_def deferred_reader_eq tempFile_of_def Let_def)

lemma Write_write_failed:
  assumes "newFileWriter_err env = None"
    and "io_Copy (disk env) (pending (rd w)) = (rest, out, Some e)"
  shows "Write writer env editionID expected mtime w =
     (closing (closing (Some (Errorf (''writing to the temp file for '' @ editionID @ '': '') e))
                 ''closing file writer: '' (fw_close_err env))
        (''closing reader for '' @ editionID @ '': '') (reader_close_err env),
      w\<lparr>rd := \<lparr>pending = fst (io_Copy Unlimited rest), closed = True\<rparr>,
        files := (files w)(tempFile_of env writer editionID \<mapsto> out),
        handles := remove1 HReader (handles w),
        trace := trace w @ [EvNewFileWriter (tempFile_of env writer editionID) None,
                            EvFwWrite (Some e),
                            EvFwClose (fw_close_err env),
                            EvDrain (snd (snd (io_Copy Unlimited rest))),
                            EvReaderClose (reader_close_err env)]\<rparr>)"
  using assms
  by (simp add: Write_def Write_staged_def newFileWriter_def fw_write_def emit_def acquire_def
        staged_def deferred_reader_eq deferred_fw_eq tempFile_of_def Let_def)

lemma Write_hash_mismatch:
  assumes "newFileWriter_err env = None"
    and "io_Copy (disk env) (pending (rd w)) = (rest, out, None)"
    and "map toLower expected \<noteq> map toLower (md5sum env out)"
  shows "Write writer env editionID expected mtime w =
     (closing (closing (Some (Errorf (''validating hash for '' @ editionID @ '': '')
                                (HashMismatch (md5sum env out) expected)))
                 ''closing file writer: '' (fw_close_err env))
        (''closing reader for '' @ editionID @ '': '') (reader_close_err env),
      w\<lparr>rd := \<lparr>pending = fst (io_Copy Unlimited rest), closed = True\<rparr>,
        files := (files w)(tempFile_of env writer editionID \<mapsto> out),
        handles := remove1 HReader (handles w),
        trace := trace w @ [EvNewFileWriter (tempFile_of env writer editionID) None,
                            EvFwWrite None,
                            EvValidateHash expected (Some (HashMismatch (md5sum env out) expected)),
                            EvFwClose (fw_close_err env),
                            EvDrain (snd (snd (io_Copy Unlimited rest))),
                            EvReaderClose (reader_close_err env)]\<rparr>)"
  using assms
  by (simp add: Write_def Write_staged_def newFileWriter_def fw_write_def validateHash_def emit_def
        acquire_def staged_def deferred_reader_eq deferred_fw_eq tempFile_of_def Let_def)

lemma Write_open_failed:
  assumes "newFileWriter_err env = None"
    and "io_Copy (disk env) (pending (rd w)) = (rest, out, None)"
    and "map toLower expected = map toLower (md5sum env out)"
    and "openFile_err env = Some e"
  shows "Write writer env editionID expected mtime w =
     (closing (closing (Some (Errorf (''opening temp file to read for '' @ editionID @ '': '') e))
                 ''closing file writer: '' (fw_close_err env))
        (''closing reader for '' @ editionID @ '': '') (reader_close_err env),
      w\<lparr>rd := \<lparr>pending = fst (io_Copy Unlimited rest), closed = True\<rparr>,
        files := (files w)(tempFile_of env writer editionID \<mapsto> out),
        handles := remove1 HReader (handles w),
        trace := trace w @ [EvNewFileWriter (tempFile_of env writer editionID) None,
                            EvFwWrite None,
                            EvValidateHash expected None,
                            EvOpenFile (tempFile_of env writer editionID) (Some e),
                            EvFwClose (fw_close_err env),
                            EvDrain (snd (snd (io_Copy Unlimited rest))),
                            EvReaderClose (reader_close_err env)]\<rparr>)"
  using assms
  by (simp add: Write_def Write_staged_def newFileWriter_def fw_write_def validateHash_def
        os_OpenFile_def emit_def acquire_def staged_def deferred_reader_eq deferred_fw_eq
        tempFile_of_def Let_def)

lemma Write_uploading:
  assumes "newFileWriter_err env = None"
    and "io_Copy (disk env) (pending (rd w)) = (rest, out, None)"
    and "map toLower expected = map toLower (md5sum env out)"
    and "openFile_err env = None"
  shows "Write writer env editionID expected mtime w =
     (closing (closing (closing (map_option (Errorf ''encountered an error writing file to S3: '')
                                   (putObject_err env))
                          ''closing file reader: '' (body_close_err env))
                 ''closing file writer: '' (fw_close_err env))
        (''closing reader for '' @ editionID @ '': '') (reader_close_err env),
      w\<lparr>rd := \<lparr>pending = fst (io_Copy Unlimited rest), closed = True\<rparr>,
        files := (files w)(tempFile_of env writer editionID \<mapsto> out),
        handles := remove1 HReader (handles w),
        trace := trace w @ [EvNewFileWriter (tempFile_of env writer editionID) None,
                            EvFwWrite None,
                            EvValidateHash expected None,
                            EvOpenFile (tempFile_of env writer editionID) None,
                            EvPutObject (request_of writer env editionID out) (putObject_err env)]
                         @ (if putObject_err env = None \<and> verbose writer
                            then [EvLog (''Database '' @ editionID @ '' successfully updated: ''
                                         @ expected)]
                            else [])
                         @ [EvBodyClose (body_close_err env),
                            EvFwClose (fw_close_err env),
                            EvDrain (snd (snd (io_Copy Unlimited rest))),
                            EvReaderClose (reader_close_err env)]\<rparr>)"
  using assms
  by (simp add: Write_def Write_staged_def newFileWriter_def fw_write_def validateHash_def
        os_OpenFile_def emit_def Write_upload_eq deferred_s3Body_eq acquire_def staged_def
        deferred_reader_eq deferred_fw_eq tempFile_of_def Let_def)

text \<open>The five paths are all there is.\<close>

lemma Write_cases [case_names setup_failed write_failed hash_mismatch open_failed uploading]:
  obtains e where "newFileWriter_err env = Some e"
  | rest out e where "newFileWriter_err env = None"
      and "io_Copy (disk env) (pending (rd w)) = (rest, out, Some e)"
  | rest out where "newFileWriter_err env = None"
      and "io_Copy (disk env) (pending (rd w)) = (rest, out, None)"
      and "map toLower expected \<noteq> map toLower (md5sum env out)"
  | rest out e where "newFileWriter_err env = None"
      and "io_Copy (disk env) (pending (rd w)) = (rest, out, None)"
      and "map toLower expected = map toLower (md5sum env out)"
      and "openFile_err env = Some e"
  | rest out where "newFileWriter_err env = None"
      and "io_Copy (disk env) (pending (rd w)) = (rest, out, None)"
      and "map toLower expected = map toLower (md5sum env out)"
      and "openFile_err env = None"
proof (cases "newFileWriter_err env")
  case (Some e)
  then show ?thesis using that(1) by blast
next
  case None
  obtain rest out r where cp: "io_Copy (disk env) (pending (rd w)) = (rest, out, r)"
    by (cases "io_Copy (disk env) (pending (rd w))") auto
  show ?thesis
  proof (cases r)
    case (Some e)
    with None cp show ?thesis using that(2) by blast
  next
    case r: None
    show ?thesis
    proof (cases "map toLower expected = map toLower (md5sum env out)")
      case False
      with None cp r show ?thesis using that(3) by blast
    next
      case True
      with None cp r show ?thesis using that(4,5) by (cases "openFile_err env") blast+
    qed
  qed
qed

subsection \<open>Facts about results and copies\<close>

lemma closing_eq_None [simp]: "closing err msg c = None \<longleftrightarrow> err = None \<and> c = None"
  by (cases err; cases c) (simp_all add: closing_def errors_Join_def List.map_filter_def)

lemma closing_keeps: "reports err t \<Longrightarrow> reports (closing err msg c) t"
  by (cases err; cases c)
     (simp_all add: closing_def reports_def errors_Join_def List.map_filter_def)

lemma closing_adds: "reports (closing err msg (Some ce)) ce"
  by (cases err) (simp_all add: closing_def reports_def errors_Join_def List.map_filter_def)

lemma closing_reportsI: "reports err t \<or> c = Some t \<Longrightarrow> reports (closing err msg c) t"
  using closing_keeps closing_adds by blast

lemma reports_Some [simp]: "reports (Some e) e"
  by (simp add: reports_def)

lemma reports_Errorf [simp]: "reports (Some (Errorf p e)) e"
  by (simp add: reports_def)

lemma io_Copy_rest: "set (fst (io_Copy s rs)) \<subseteq> set rs"
  by (induction s rs rule: io_Copy.induct) (auto split: prod.splits)

lemma io_Copy_drains: "\<forall>x \<in> set rs. is_Data x \<Longrightarrow> fst (io_Copy Unlimited rs) = []"
proof (induction rs)
  case Nil
  then show ?case by simp
next
  case (Cons x rs)
  then show ?case by (cases x) (auto split: prod.splits)
qed

lemma io_Copy_eof: "snd (snd (io_Copy s rs)) = None \<Longrightarrow> fst (io_Copy s rs) = []"
  by (induction s rs rule: io_Copy.induct) (auto split: prod.splits)

subsection \<open>Write\<close>

lemmas example_defs =
  example_env_def example_world_def example_writer_def idle_world_def NewS3DatabaseWriter_def

lemma example_tempFile:
  "extension env = ''.mmdb'' \<Longrightarrow> tempExtension env = ''.temporary'' \<Longrightarrow>
     tempFile_of env writer ''GeoLite2-City'' = ''tmp/GeoLite2-City.mmdb.temporary''"
  by (simp add: tempFile_of_def getObjectKey_def path_Join_def path_Clean_def)

lemma example_hashes_differ: "map toLower ''ffffffff'' \<noteq> map toLower ''49f68a5c''"
  by code_simp

text \<open>
  C1. The upload comes only after a successful staging write and a successful hash
  validation: in the calls of one execution of \<^verbatim>\<open>Write\<close>, every \<^verbatim>\<open>PutObject\<close> is preceded
  by a \<^verbatim>\<open>fw.write\<close> and a \<^verbatim>\<open>fw.validateHash\<close> that returned nil. When the staging write
  fails, and when the hash of the staged bytes differs from the expected hash,
  \<^verbatim>\<open>Write\<close> returns an error and no \<^verbatim>\<open>PutObject\<close> is called.
\<close>

theorem Write_upload_after_validation:
  "let res = Write writer env editionID newMD5 mtime w;
       evs = new_events w (snd res)
   in (\<forall>pre input result post. evs = pre @ EvPutObject input result # post \<longrightarrow>
         EvFwWrite None \<in> set pre \<and> EvValidateHash newMD5 None \<in> set pre)
      \<and> ((\<exists>e. EvFwWrite (Some e) \<in> set evs) \<longrightarrow>
           fst res \<noteq> None \<and> (\<forall>input result. EvPutObject input result \<notin> set evs))
      \<and> (map toLower newMD5
            \<noteq> map toLower (md5sum env (staged (snd res) (tempFile_of env writer editionID))) \<longrightarrow>
           fst res \<noteq> None \<and> (\<forall>input result. EvPutObject input result \<notin> set evs))"
proof (cases rule: Write_cases [where env = env and w = w and expected = newMD5])
  case (setup_failed e)
  show ?thesis
    by (simp add: Write_setup_failed [OF setup_failed] new_events_def Let_def Cons_eq_append_conv
          del: not_None_eq)
next
  case (write_failed rest out e)
  show ?thesis
    by (simp add: Write_write_failed [OF write_failed] new_events_def Let_def Cons_eq_append_conv
          del: not_None_eq)
next
  case (hash_mismatch rest out)
  show ?thesis
    by (simp add: Write_hash_mismatch [OF hash_mismatch] new_events_def Let_def Cons_eq_append_conv
          del: not_None_eq)
next
  case (open_failed rest out e)
  show ?thesis
    by (simp add: Write_open_failed [OF open_failed] new_events_def Let_def Cons_eq_append_conv
          del: not_None_eq)
next
  case (uploading rest out)
  show ?thesis
    using uploading(3)
    by (auto simp add: Write_uploading [OF uploading] new_events_def Let_def Cons_eq_append_conv
          staged_def simp del: not_None_eq)
qed

theorem Write_upload_after_validation_witness:
  "(EvFwWrite None
      \<in> set [EvNewFileWriter ''tmp/GeoLite2-City.mmdb.temporary'' None, EvFwWrite None,
              EvValidateHash ''49f68a5c'' None,
              EvOpenFile ''tmp/GeoLite2-City.mmdb.temporary'' None]
    \<and> EvValidateHash ''49f68a5c'' None
      \<in> set [EvNewFileWriter ''tmp/GeoLite2-City.mmdb.temporary'' None, EvFwWrite None,
              EvValidateHash ''49f68a5c'' None,
              EvOpenFile ''tmp/GeoLite2-City.mmdb.temporary'' None])
   \<and> fst (Write example_writer
             (example_env\<lparr>disk := FailsAfter 1 (OtherError ''no space left on device'')\<rparr>)
             ''GeoLite2-City'' ''49f68a5c'' 0 example_world) \<noteq> None
   \<and> fst (Write example_writer example_env ''GeoLite2-City'' ''ffffffff'' 0 example_world) \<noteq> None"
proof -
  let ?tf = "''tmp/GeoLite2-City.mmdb.temporary''"
  let ?disk = "example_env\<lparr>disk := FailsAfter 1 (OtherError ''no space left on device'')\<rparr>"
  have ok: "new_events example_world
              (snd (Write example_writer example_env ''GeoLite2-City'' ''49f68a5c'' 0 example_world))
            = [EvNewFileWriter ?tf None, EvFwWrite None, EvValidateHash ''49f68a5c'' None,
               EvOpenFile ?tf None]
              @ EvPutObject (request_of example_writer example_env ''GeoLite2-City'' [104, 105]) None
                # [EvBodyClose None, EvFwClose None, EvDrain None, EvReaderClose None]"
    using Write_uploading [where env = example_env and w = example_world and rest = "[]"
        and out = "[104, 105]" and expected = "''49f68a5c''" and writer = example_writer
        and editionID = "''GeoLite2-City''" and mtime = 0]
    by (simp add: example_defs example_tempFile new_events_def)
  have disk: "EvFwWrite (Some (OtherError ''no space left on device''))
      \<in> set (new_events example_world
                (snd (Write example_writer ?disk ''GeoLite2-City'' ''49f68a5c'' 0 example_world)))"
    using Write_write_failed [where env = ?disk and w = example_world and rest = "[]"
        and out = "[104]" and e = "OtherError ''no space left on device''"
        and expected = "''49f68a5c''" and writer = example_writer
        and editionID = "''GeoLite2-City''" and mtime = 0]
    by (simp add: example_defs new_events_def)
  have bad: "map toLower ''ffffffff''
      \<noteq> map toLower (md5sum example_env
            (staged (snd (Write example_writer example_env ''GeoLite2-City'' ''ffffffff'' 0
                            example_world))
               (tempFile_of example_env example_writer ''GeoLite2-City'')))"
    using Write_hash_mismatch [where env = example_env and w = example_world and rest = "[]"
        and out = "[104, 105]" and expected = "''ffffffff''" and writer = example_writer
        and editionID = "''GeoLite2-City''" and mtime = 0] example_hashes_differ
    by (simp add: example_defs staged_def)
  note main = Write_upload_after_validation [unfolded Let_def]
  from main [THEN conjunct1, rule_format, OF ok]
    main [THEN conjunct2, THEN conjunct1, rule_format, OF exI, OF disk]
    main [THEN conjunct2, THEN conjunct2, rule_format, OF bad]
  show ?thesis by blast
qed

text \<open>
  C8. Every failure met during one execution of \<^verbatim>\<open>Write\<close> is in the error it returns: the
  error of the step that ended the attempt, and the error of each of the three closes
  (input reader, file writer, staged-file read handle) that failed while unwinding. When
  several fail, the returned error reports them all. (The drain of the input stream is not
  one of the closes; \<open>event_error\<close> leaves it out.)
\<close>

theorem Write_reports_every_failure:
  "let res = Write writer env editionID newMD5 mtime w;
       evs = new_events w (snd res)
   in \<forall>ev \<in> set evs. \<forall>e. event_error ev = Some e \<longrightarrow> reports (fst res) e"
proof (cases rule: Write_cases [where env = env and w = w and expected = newMD5])
  case (setup_failed e)
  show ?thesis
    by (auto simp add: Write_setup_failed [OF setup_failed] new_events_def Let_def
          intro!: closing_reportsI)
next
  case (write_failed rest out e)
  show ?thesis
    by (auto simp add: Write_write_failed [OF write_failed] new_events_def Let_def
          intro!: closing_reportsI)
next
  case (hash_mismatch rest out)
  show ?thesis
    by (auto simp add: Write_hash_mismatch [OF hash_mismatch] new_events_def Let_def
          intro!: closing_reportsI)
next
  case (open_failed rest out e)
  show ?thesis
    by (auto simp add: Write_open_failed [OF open_failed] new_events_def Let_def
          intro!: closing_reportsI)
next
  case (uploading rest out)
  show ?thesis
    by (auto simp add: Write_uploading [OF uploading] new_events_def Let_def
          intro!: closing_reportsI)
qed

theorem Write_reports_every_failure_witness:
  "reports (fst (Write example_writer
                   (example_env\<lparr>fw_close_err := Some (OtherError ''file already closed''),
                                putObject_err := Some (OtherError ''AccessDenied'')\<rparr>)
                   ''GeoLite2-City'' ''49f68a5c'' 0 example_world))
     (OtherError ''AccessDenied'')
   \<and> reports (fst (Write example_writer
                   (example_env\<lparr>fw_close_err := Some (OtherError ''file already closed''),
                                putObject_err := Some (OtherError ''AccessDenied'')\<rparr>)
                   ''GeoLite2-City'' ''49f68a5c'' 0 example_world))
     (OtherError ''file already closed'')"
proof -
  let ?env = "example_env\<lparr>fw_close_err := Some (OtherError ''file already closed''),
                           putObject_err := Some (OtherError ''AccessDenied'')\<rparr>"
  let ?res = "Write example_writer ?env ''GeoLite2-City'' ''49f68a5c'' 0 example_world"
  have evs: "EvPutObject (request_of example_writer ?env ''GeoLite2-City'' [104, 105])
               (Some (OtherError ''AccessDenied'')) \<in> set (new_events example_world (snd ?res))"
    "EvFwClose (Some (OtherError ''file already closed''))
       \<in> set (new_events example_world (snd ?res))"
    using Write_uploading [where env = ?env and w = example_world and rest = "[]"
        and out = "[104, 105]" and expected = "''49f68a5c''" and writer = example_writer
        and editionID = "''GeoLite2-City''" and mtime = 0]
    by (simp_all add: example_defs new_events_def)
  note main = Write_reports_every_failure [unfolded Let_def, rule_format]
  from main [OF evs(1)] main [OF evs(2)] show ?thesis by simp
qed

text \<open>
  C7. Every upload of \<^verbatim>\<open>Write\<close> asks for server-side encryption with \<^verbatim>\<open>AES256\<close>, unless
  the writer's \<^verbatim>\<open>disableEncryption\<close> flag is set, and then the setting is the empty string;
  so the setting is empty exactly when the flag is set. \<^verbatim>\<open>NewS3DatabaseWriter\<close> returns a
  writer whose flag is not set.
\<close>

theorem Write_encryption_setting:
  "(\<forall>input \<in> set (uploads (new_events w (snd (Write writer env editionID newMD5 mtime w)))).
      ServerSideEncryption input = (if disableEncryption writer then [] else ''AES256'')
      \<and> (ServerSideEncryption input = [] \<longleftrightarrow> disableEncryption writer))
   \<and> disableEncryption (fst (NewS3DatabaseWriter client bucket verb)) = False"
proof (cases rule: Write_cases [where env = env and w = w and expected = newMD5])
  case (setup_failed e)
  show ?thesis
    by (simp add: Write_setup_failed [OF setup_failed] new_events_def NewS3DatabaseWriter_def)
next
  case (write_failed rest out e)
  show ?thesis
    by (simp add: Write_write_failed [OF write_failed] new_events_def NewS3DatabaseWriter_def)
next
  case (hash_mismatch rest out)
  show ?thesis
    by (simp add: Write_hash_mismatch [OF hash_mismatch] new_events_def NewS3DatabaseWriter_def)
next
  case (open_failed rest out e)
  show ?thesis
    by (simp add: Write_open_failed [OF open_failed] new_events_def NewS3DatabaseWriter_def)
next
  case (uploading rest out)
  show ?thesis
    by (simp add: Write_uploading [OF uploading] new_events_def NewS3DatabaseWriter_def
          request_of_def ServerSideEncryptionAes256_def)
qed

theorem Write_encryption_setting_witness:
  "map ServerSideEncryption
     (uploads (new_events example_world
        (snd (Write example_writer example_env ''GeoLite2-City'' ''49f68a5c'' 0 example_world))))
     = [''AES256'']
   \<and> map ServerSideEncryption
     (uploads (new_events example_world
        (snd (Write (example_writer\<lparr>disableEncryption := True\<rparr>) example_env ''GeoLite2-City''
                ''49f68a5c'' 0 example_world))))
     = [[]]"
proof -
  let ?off = "example_writer\<lparr>disableEncryption := True\<rparr>"
  have on: "uploads (new_events example_world
        (snd (Write example_writer example_env ''GeoLite2-City'' ''49f68a5c'' 0 example_world)))
      = [request_of example_writer example_env ''GeoLite2-City'' [104, 105]]"
    using Write_uploading [where env = example_env and w = example_world and rest = "[]"
        and out = "[104, 105]" and expected = "''49f68a5c''" and writer = example_writer
        and editionID = "''GeoLite2-City''" and mtime = 0]
    by (simp add: example_defs new_events_def)
  have off: "uploads (new_events example_world
        (snd (Write ?off example_env ''GeoLite2-City'' ''49f68a5c'' 0 example_world)))
      = [request_of ?off example_env ''GeoLite2-City'' [104, 105]]"
    using Write_uploading [where env = example_env and w = example_world and rest = "[]"
        and out = "[104, 105]" and expected = "''49f68a5c''" and writer = ?off
        and editionID = "''GeoLite2-City''" and mtime = 0]
    by (simp add: example_defs new_events_def)
  from Write_encryption_setting
      [of example_world example_writer example_env "''GeoLite2-City''" "''49f68a5c''" 0,
       THEN conjunct1]
    Write_encryption_setting
      [of example_world ?off example_env "''GeoLite2-City''" "''49f68a5c''" 0, THEN conjunct1]
  show ?thesis
    unfolding on off by (simp add: example_writer_def NewS3DatabaseWriter_def)
qed

text \<open>
  C3. The source declares \<^verbatim>\<open>DateModifiedTag\<close> as the name of the tag that stores the date of
  modification received with the database, and a published object is to carry that tag and
  the expected hash. \<^verbatim>\<open>Write\<close> does not do it. Here \<^verbatim>\<open>Write\<close> succeeds, its one upload goes
  to the canonical key, and the request has no tagging and no metadata; with another
  modification time the outcome is the same, so nothing of the time reaches the store.
\<close>

theorem Write_upload_untagged:
  "fst (Write example_writer example_env ''GeoLite2-City'' ''49f68a5c'' 1700000000 example_world)
     = None
   \<and> map Key (uploads (new_events example_world
        (snd (Write example_writer example_env ''GeoLite2-City'' ''49f68a5c'' 1700000000
                example_world))))
     = [Some ''GeoLite2-City.mmdb'']
   \<and> map Tagging (uploads (new_events example_world
        (snd (Write example_writer example_env ''GeoLite2-City'' ''49f68a5c'' 1700000000
                example_world))))
     = [None]
   \<and> map Metadata (uploads (new_events example_world
        (snd (Write example_writer example_env ''GeoLite2-City'' ''49f68a5c'' 1700000000
                example_world))))
     = [[]]
   \<and> Write example_writer example_env ''GeoLite2-City'' ''49f68a5c'' 0 example_world
     = Write example_writer example_env ''GeoLite2-City'' ''49f68a5c'' 1700000000 example_world"
proof -
  have same: "Write example_writer example_env ''GeoLite2-City'' ''49f68a5c'' 0 example_world
     = Write example_writer example_env ''GeoLite2-City'' ''49f68a5c'' 1700000000 example_world"
    by (simp add: Write_def)
  show ?thesis
    unfolding same
    using Write_uploading [where env = example_env and w = example_world and rest = "[]"
        and out = "[104, 105]" and expected = "''49f68a5c''" and writer = example_writer
        and editionID = "''GeoLite2-City''" and mtime = 1700000000]
    by (simp add: example_defs new_events_def request_of_def getObjectKey_def)
qed

text \<open>
  C5. The claim that the input stream is fully drained on every outcome fails: the drain
  stops at the first read that fails, and its error is dropped. Here the disk fails on the
  first chunk, the drain meets a read error, and \<^verbatim>\<open>Write\<close> returns with the stream closed and
  a chunk left unread.
\<close>

theorem Write_fully_drains_counterexample:
  "pending (rd (snd (Write example_writer
                       (example_env\<lparr>disk := FailsAfter 0 (OtherError ''no space left on device'')\<rparr>)
                       ''GeoLite2-City'' ''49f68a5c'' 0
                       (example_world\<lparr>rd := \<lparr>pending = [Data [104], Fail (OtherError ''i/o timeout''),
                                                        Data [105]],
                                             closed = False\<rparr>\<rparr>))))
     = [Data [105]]
   \<and> closed (rd (snd (Write example_writer
                       (example_env\<lparr>disk := FailsAfter 0 (OtherError ''no space left on device'')\<rparr>)
                       ''GeoLite2-City'' ''49f68a5c'' 0
                       (example_world\<lparr>rd := \<lparr>pending = [Data [104], Fail (OtherError ''i/o timeout''),
                                                        Data [105]],
                                             closed = False\<rparr>\<rparr>))))
     = True"
  using Write_write_failed
    [where env = "example_env\<lparr>disk := FailsAfter 0 (OtherError ''no space left on device'')\<rparr>"
       and w = "example_world\<lparr>rd := \<lparr>pending = [Data [104], Fail (OtherError ''i/o timeout''),
                                                  Data [105]],
                                       closed = False\<rparr>\<rparr>"
       and rest = "[Fail (OtherError ''i/o timeout''), Data [105]]" and out = "[]"
       and e = "OtherError ''no space left on device''"
       and expected = "''49f68a5c''" and writer = example_writer
       and editionID = "''GeoLite2-City''" and mtime = 0]
  by (simp add: example_defs)

text \<open>
  C5, amended. On every outcome \<^verbatim>\<open>Write\<close> ends by draining the input stream and then
  closing it: the drain and the close of the reader are its last two calls, and the stream
  is closed when it returns. The drain reads up to the end of the stream or to the first
  read that fails: a stream whose reads do not fail is fully drained, and whenever
  something is left unread the drain has met a read error.
\<close>

theorem Write_drains_then_closes:
  "let res = Write writer env editionID newMD5 mtime w;
       evs = new_events w (snd res)
   in closed (rd (snd res))
      \<and> (\<exists>d. drop (length evs - 2) evs = [EvDrain d, EvReaderClose (reader_close_err env)])
      \<and> ((\<forall>x \<in> set (pending (rd w)). is_Data x) \<longrightarrow> pending (rd (snd res)) = [])
      \<and> (pending (rd (snd res)) \<noteq> [] \<longrightarrow> (\<exists>e. EvDrain (Some e) \<in> set evs))"
proof -
  have all: "fst (io_Copy Unlimited (fst (io_Copy s (pending (rd w))))) = []"
    if "\<forall>x \<in> set (pending (rd w)). is_Data x" for s
    using that io_Copy_rest [of s "pending (rd w)"] by (intro io_Copy_drains) blast
  have left: "\<exists>e. snd (snd (io_Copy Unlimited rs)) = Some e"
    if "fst (io_Copy Unlimited rs) \<noteq> []" for rs
    using that io_Copy_eof [of Unlimited rs] by (cases "snd (snd (io_Copy Unlimited rs))") auto
  show ?thesis
  proof (cases rule: Write_cases [where env = env and w = w and expected = newMD5])
    case (setup_failed e)
    show ?thesis
      using all [of Unlimited] left [of "pending (rd w)"] io_Copy_drains [of "pending (rd w)"]
      by (auto simp add: Write_setup_failed [OF setup_failed] new_events_def Let_def)
  next
    case (write_failed rest out e)
    show ?thesis
      using all [of "disk env"] left [of rest]
      by (auto simp add: Write_write_failed [OF write_failed] write_failed(2) new_events_def Let_def)
  next
    case (hash_mismatch rest out)
    show ?thesis
      using all [of "disk env"] left [of rest]
      by (auto simp add: Write_hash_mismatch [OF hash_mismatch] hash_mismatch(2) new_events_def
            Let_def)
  next
    case (open_failed rest out e)
    show ?thesis
      using all [of "disk env"] left [of rest]
      by (auto simp add: Write_open_failed [OF open_failed] open_failed(2) new_events_def Let_def)
  next
    case (uploading rest out)
    show ?thesis
      using all [of "disk env"] left [of rest]
      by (auto simp add: Write_uploading [OF uploading] uploading(2) new_events_def Let_def)
  qed
qed

theorem Write_drains_then_closes_witness:
  "pending (rd (snd (Write example_writer example_env ''GeoLite2-City'' ''ffffffff'' 0
                       example_world))) = []
   \<and> EvDrain (Some (OtherError ''i/o timeout''))
     \<in> set (new_events
              (example_world\<lparr>rd := \<lparr>pending = [Data [104], Fail (OtherError ''i/o timeout''),
                                               Data [105]],
                                    closed = False\<rparr>\<rparr>)
              (snd (Write example_writer
                      (example_env\<lparr>disk := FailsAfter 0 (OtherError ''no space left on device'')\<rparr>)
                      ''GeoLite2-City'' ''49f68a5c'' 0
                      (example_world\<lparr>rd := \<lparr>pending = [Data [104], Fail (OtherError ''i/o timeout''),
                                                       Data [105]],
                                            closed = False\<rparr>\<rparr>))))"
proof -
  let ?env = "example_env\<lparr>disk := FailsAfter 0 (OtherError ''no space left on device'')\<rparr>"
  let ?w = "example_world\<lparr>rd := \<lparr>pending = [Data [104], Fail (OtherError ''i/o timeout''),
                                            Data [105]],
                                 closed = False\<rparr>\<rparr>"
  have clean: "\<forall>x \<in> set (pending (rd example_world)). is_Data x"
    by (simp add: example_world_def)
  have left: "pending (rd (snd (Write example_writer ?env ''GeoLite2-City'' ''49f68a5c'' 0 ?w)))
                \<noteq> []"
    using Write_write_failed
      [where env = ?env and w = ?w
         and rest = "[Fail (OtherError ''i/o timeout''), Data [105]]" and out = "[]"
         and e = "OtherError ''no space left on device''"
         and expected = "''49f68a5c''" and writer = example_writer
         and editionID = "''GeoLite2-City''" and mtime = 0]
    by (simp add: example_defs)
  have drained: "snd (snd (io_Copy Unlimited [Fail (OtherError ''i/o timeout''), Data [105]]))
                   = Some (OtherError ''i/o timeout'')"
    by simp
  note main = Write_drains_then_closes [unfolded Let_def]
  from main [of example_writer example_env "''GeoLite2-City''" "''ffffffff''" 0 example_world,
        THEN conjunct2, THEN conjunct2, THEN conjunct1, THEN mp, OF clean]
    main [of example_writer ?env "''GeoLite2-City''" "''49f68a5c''" 0 ?w,
        THEN conjunct2, THEN conjunct2, THEN conjunct2, THEN mp, OF left]
    Write_write_failed
      [where env = ?env and w = ?w
         and rest = "[Fail (OtherError ''i/o timeout''), Data [105]]" and out = "[]"
         and e = "OtherError ''no space left on device''"
         and expected = "''49f68a5c''" and writer = example_writer
         and editionID = "''GeoLite2-City''" and mtime = 0]
  show ?thesis
    by (simp add: example_defs new_events_def)
qed

text \<open>
  C6. \<^verbatim>\<open>Write\<close> deletes no file: every file that was there before is there after, and once
  the file writer is set up the staged file is there when \<^verbatim>\<open>Write\<close> returns. In particular,
  when the upload fails (staging and validation have then succeeded), the temp file still
  holds the bytes that were offered for upload.
\<close>

theorem Write_keeps_staged_file:
  "let res = Write writer env editionID newMD5 mtime w;
       tempFile = tempFile_of env writer editionID
   in (\<forall>p. files w p \<noteq> None \<longrightarrow> files (snd res) p \<noteq> None)
      \<and> (newFileWriter_err env = None \<longrightarrow> files (snd res) tempFile \<noteq> None)
      \<and> (\<forall>input e. EvPutObject input (Some e) \<in> set (new_events w (snd res)) \<longrightarrow>
            files (snd res) tempFile = Some (Body input))"
proof (cases rule: Write_cases [where env = env and w = w and expected = newMD5])
  case (setup_failed e)
  show ?thesis
    by (simp add: Write_setup_failed [OF setup_failed] setup_failed new_events_def Let_def)
next
  case (write_failed rest out e)
  show ?thesis
    by (simp add: Write_write_failed [OF write_failed] new_events_def Let_def)
next
  case (hash_mismatch rest out)
  show ?thesis
    by (simp add: Write_hash_mismatch [OF hash_mismatch] new_events_def Let_def)
next
  case (open_failed rest out e)
  show ?thesis
    by (simp add: Write_open_failed [OF open_failed] new_events_def Let_def)
next
  case (uploading rest out)
  show ?thesis
    by (auto simp add: Write_uploading [OF uploading] new_events_def Let_def request_of_def)
qed

theorem Write_keeps_staged_file_witness:
  "files (snd (Write example_writer
                 (example_env\<lparr>putObject_err := Some (OtherError ''RequestTimeout'')\<rparr>)
                 ''GeoLite2-City'' ''49f68a5c'' 0
                 (example_world\<lparr>files := (\<lambda>p. if p = ''GeoIP.conf'' then Some [35] else None)\<rparr>)))
     ''tmp/GeoLite2-City.mmdb.temporary'' = Some [104, 105]
   \<and> files (snd (Write example_writer
                 (example_env\<lparr>putObject_err := Some (OtherError ''RequestTimeout'')\<rparr>)
                 ''GeoLite2-City'' ''49f68a5c'' 0
                 (example_world\<lparr>files := (\<lambda>p. if p = ''GeoIP.conf'' then Some [35] else None)\<rparr>)))
     ''GeoIP.conf'' \<noteq> None"
proof -
  let ?env = "example_env\<lparr>putObject_err := Some (OtherError ''RequestTimeout'')\<rparr>"
  let ?w = "example_world\<lparr>files := (\<lambda>p. if p = ''GeoIP.conf'' then Some [35] else None)\<rparr>"
  let ?res = "Write example_writer ?env ''GeoLite2-City'' ''49f68a5c'' 0 ?w"
  have put: "EvPutObject (request_of example_writer ?env ''GeoLite2-City'' [104, 105])
               (Some (OtherError ''RequestTimeout'')) \<in> set (new_events ?w (snd ?res))"
    using Write_uploading [where env = ?env and w = ?w and rest = "[]"
        and out = "[104, 105]" and expected = "''49f68a5c''" and writer = example_writer
        and editionID = "''GeoLite2-City''" and mtime = 0]
    by (simp add: example_defs new_events_def)
  have there: "files ?w ''GeoIP.conf'' \<noteq> None"
    by (simp add: example_world_def)
  have tf: "tempFile_of ?env example_writer ''GeoLite2-City'' = ''tmp/GeoLite2-City.mmdb.temporary''"
    by (simp add: example_tempFile example_env_def)
  note main = Write_keeps_staged_file
    [of example_writer ?env "''GeoLite2-City''" "''49f68a5c''" 0 ?w, unfolded Let_def]
  from main [THEN conjunct1, rule_format, OF there]
    main [THEN conjunct2, THEN conjunct2, rule_format, OF put]
  show ?thesis
    by (simp add: tf request_of_def)
qed

lemma Write_releases_handles:
  "handles (snd (Write writer env editionID newMD5 mtime w)) = remove1 HReader (handles w)"
proof (cases rule: Write_cases [where env = env and w = w and expected = newMD5])
  case (setup_failed e)
  show ?thesis by (simp add: Write_setup_failed [OF setup_failed])
next
  case (write_failed rest out e)
  show ?thesis by (simp add: Write_write_failed [OF write_failed])
next
  case (hash_mismatch rest out)
  show ?thesis by (simp add: Write_hash_mismatch [OF hash_mismatch])
next
  case (open_failed rest out e)
  show ?thesis by (simp add: Write_open_failed [OF open_failed])
next
  case (uploading rest out)
  show ?thesis by (simp add: Write_uploading [OF uploading])
qed

text \<open>
  C4. \<^verbatim>\<open>Write\<close> releases what it acquires (the lemma above: of the open handles it removes
  the caller's stream and leaves the rest as it was). \<^verbatim>\<open>GetHash\<close> does not: on a successful
  retrieval it returns the ETag and never closes the body of the response, which stays
  open.
\<close>

theorem GetHash_leaves_body_open:
  "fst (GetHash example_writer example_env ''GeoLite2-City'' idle_world)
     = Return (''49f68a5c'', None)
   \<and> handles (snd (GetHash example_writer example_env ''GeoLite2-City'' idle_world))
     = [HResponseBody ''GeoLite2-City.mmdb'']
   \<and> trace (snd (GetHash example_writer example_env ''GeoLite2-City'' idle_world))
     = [EvGetObject ''geoip-bucket'' ''GeoLite2-City.mmdb'']"
  by (simp add: GetHash_def s3_GetObject_def emit_def acquire_def getObjectKey_def Let_def
        example_defs)

lemma example_message_names_edition:
  "map_option Error
     (fst (Write example_writer example_env ''GeoLite2-City'' ''ffffffff'' 0 example_world))
     = Some (''validating hash for GeoLite2-City: ''
             @ ''md5 of new database (49f68a5c) does not match expected md5 (ffffffff)'')
   \<and> strings_Contains
        (''validating hash for GeoLite2-City: ''
         @ ''md5 of new database (49f68a5c) does not match expected md5 (ffffffff)'')
        ''GeoLite2-City''"
proof -
  have "strings_Contains
        (''validating hash for GeoLite2-City: ''
         @ ''md5 of new database (49f68a5c) does not match expected md5 (ffffffff)'')
        ''GeoLite2-City''"
    by code_simp
  then show ?thesis
    using Write_hash_mismatch [where env = example_env and w = example_world and rest = "[]"
        and out = "[104, 105]" and expected = "''ffffffff''" and writer = example_writer
        and editionID = "''GeoLite2-City''" and mtime = 0] example_hashes_differ
    by (simp add: example_defs closing_def)
qed

text \<open>
  C9. The errors of the steps before the upload name the edition (the lemma above shows
  one). The error of the upload step does not: when \<^verbatim>\<open>PutObject\<close> fails, \<^verbatim>\<open>Write\<close> returns
  the failure behind the fixed prefix \<^verbatim>\<open>encountered an error writing file to S3: \<close>, and the
  edition identifier is nowhere in the message.
\<close>

theorem Write_upload_error_omits_edition:
  "map_option Error
     (fst (Write example_writer
             (example_env\<lparr>putObject_err := Some (OtherError ''AccessDenied: Access Denied'')\<rparr>)
             ''GeoLite2-City'' ''49f68a5c'' 0 example_world))
     = Some ''encountered an error writing file to S3: AccessDenied: Access Denied''
   \<and> \<not> strings_Contains ''encountered an error writing file to S3: AccessDenied: Access Denied''
          ''GeoLite2-City''"
proof -
  have "\<not> strings_Contains ''encountered an error writing file to S3: AccessDenied: Access Denied''
          ''GeoLite2-City''"
    by code_simp
  then show ?thesis
    using Write_uploading
      [where env = "example_env\<lparr>putObject_err := Some (OtherError ''AccessDenied: Access Denied'')\<rparr>"
         and w = example_world and rest = "[]"
         and out = "[104, 105]" and expected = "''49f68a5c''" and writer = example_writer
         and editionID = "''GeoLite2-City''" and mtime = 0]
    by (simp add: example_defs closing_def)
qed

end
